theory Spec2Isabelle
  imports Complex_Main "HOL-Library.Sublist" "HOL-Library.Multiset"
begin

section \<open>Python strings\<close>

text \<open>
  A Python \<^verbatim>\<open>str\<close> is modelled as a \<^typ>\<open>string\<close> with one \<^typ>\<open>char\<close> per code point,
  which covers the code points below 256. \<^verbatim>\<open>len\<close> is \<^const>\<open>length\<close>, the truth
  value of a string is \<open>s \<noteq> []\<close>.
\<close>

definition isspace :: "char \<Rightarrow> bool" where
  \<comment> \<open>the code points below 256 that \<^verbatim>\<open>str.strip()\<close> removes\<close>
  "isspace c = (of_char c \<in> {9, 10, 11, 12, 13, 28, 29, 30, 31, 32, 133, 160 :: nat})"

definition strip :: "string \<Rightarrow> string" where
  "strip s = rev (dropWhile isspace (rev (dropWhile isspace s)))"

definition lower_char :: "char \<Rightarrow> char" where
  \<comment> \<open>\<^verbatim>\<open>A-Z\<close> and the upper-case letters of Latin-1 move up by 32\<close>
  "lower_char c =
     (let n = of_char c :: nat
      in if (65 \<le> n \<and> n \<le> 90) \<or> (192 \<le> n \<and> n \<le> 222 \<and> n \<noteq> 215)
         then char_of (n + 32) else c)"

definition lower :: "string \<Rightarrow> string" where
  "lower s = map lower_char s"

fun py_in :: "string \<Rightarrow> string \<Rightarrow> bool" where
  \<comment> \<open>\<^verbatim>\<open>sub in text\<close> on strings\<close>
  "py_in sub [] = (sub = [])"
| "py_in sub (c # cs) = (prefix sub (c # cs) \<or> py_in sub cs)"

fun join :: "string \<Rightarrow> string list \<Rightarrow> string" where
  \<comment> \<open>\<^verbatim>\<open>sep.join(parts)\<close>\<close>
  "join sep [] = []"
| "join sep [x] = x"
| "join sep (x # y # ys) = x @ sep @ join sep (y # ys)"


section \<open>The pretrained models\<close>

text \<open>
  \<^verbatim>\<open>load_models\<close> returns a \<^verbatim>\<open>SentenceTransformer\<close> and a \<^verbatim>\<open>KeyBERT\<close> built on it.
  Both are libraries outside the repository, so the three calls the scripts make are
  fields of a record: \<^verbatim>\<open>model.encode(text)\<close>, \<^verbatim>\<open>model.similarity(a, b)\<close> read as a
  Python float, and \<^verbatim>\<open>kw_model.extract_keywords(text, keyphrase_ngram_range=(1, 2),
  stop_words='english', top_n=n)\<close>. \<open>None\<close> stands for a call that raises. The type
  \<open>'v\<close> is the embedding vector.

  A finite Python float is read as the \<^typ>\<open>real\<close> it denotes, with the floats written
  \<^verbatim>\<open>0.60\<close> and \<^verbatim>\<open>0.40\<close> read as \<open>6/10\<close> and \<open>4/10\<close>; no float lies strictly between
  such a literal and its decimal, so every comparison of the scripts keeps its outcome.
  \<^verbatim>\<open>nan\<close> is not modelled.
\<close>

record 'v models =
  encode :: "string \<Rightarrow> 'v option"
  similarity :: "'v \<Rightarrow> 'v \<Rightarrow> real option"
  kw_extract :: "string \<Rightarrow> nat \<Rightarrow> (string \<times> real) list option"

datatype 'v call =
    Encode string
  | Similarity 'v 'v
  | Extract_keywords string nat

datatype field = Target_keyword | My_content

datatype error =
    InvalidInput field  \<comment> \<open>the \<^verbatim>\<open>st.warning\<close> branches of the analysis\<close>
  | ProviderFailure     \<comment> \<open>an exception raised by a model call; nothing catches it\<close>
  | StreamlitAPIException  \<comment> \<open>raised by \<^verbatim>\<open>st.progress\<close>; nothing catches it\<close>

text \<open>
  A computation returns its value or the error that stopped it, together with the model
  calls it made, in order.
\<close>

type_synonym ('v, 'a) run = "(error + 'a) \<times> 'v call list"

definition returns :: "'a \<Rightarrow> ('v, 'a) run" where
  "returns a = (Inr a, [])"

definition and_then :: "('v, 'a) run \<Rightarrow> ('a \<Rightarrow> ('v, 'b) run) \<Rightarrow> ('v, 'b) run" where
  "and_then r f =
     (case r of
        (Inl e, cs) \<Rightarrow> (Inl e, cs)
      | (Inr a, cs) \<Rightarrow> (case f a of (r', cs') \<Rightarrow> (r', cs @ cs')))"

definition call_encode :: "'v models \<Rightarrow> string \<Rightarrow> ('v, 'v) run" where
  "call_encode m text =
     ((case encode m text of None \<Rightarrow> Inl ProviderFailure | Some v \<Rightarrow> Inr v),
      [Encode text])"

definition call_similarity :: "'v models \<Rightarrow> 'v \<Rightarrow> 'v \<Rightarrow> ('v, real) run" where
  "call_similarity m a b =
     ((case similarity m a b of None \<Rightarrow> Inl ProviderFailure | Some s \<Rightarrow> Inr s),
      [Similarity a b])"

definition call_kw_extract ::
  "'v models \<Rightarrow> string \<Rightarrow> nat \<Rightarrow> ('v, (string \<times> real) list) run" where
  "call_kw_extract m text top_n =
     ((case kw_extract m text top_n of None \<Rightarrow> Inl ProviderFailure | Some ks \<Rightarrow> Inr ks),
      [Extract_keywords text top_n])"


section \<open>app.py: helper functions\<close>

text \<open>
  \<^verbatim>\<open>fetch_url_content\<close>: the request, \<^verbatim>\<open>raise_for_status\<close> and the HTML parser are
  outside the repository. The parameter \<open>get_elements url\<close> is the \<^verbatim>\<open>get_text()\<close> of
  each \<^verbatim>\<open>p, h1, h2, h3, li\<close> element of the page, or \<open>None\<close> when anything in the
  \<^verbatim>\<open>try\<close> block raises an \<^verbatim>\<open>Exception\<close>.
\<close>

definition fetch_url_content :: "(string \<Rightarrow> string list option) \<Rightarrow> string \<Rightarrow> string option" where
  "fetch_url_content get_elements url =
     (case get_elements url of
        None \<Rightarrow> None
      | Some text_elements \<Rightarrow>
          Some (join '' '' [strip elem. elem \<leftarrow> text_elements, length (strip elem) > 25]))"

definition extract_keywords :: "'v models \<Rightarrow> string \<Rightarrow> nat \<Rightarrow> ('v, (string \<times> real) list) run" where
  "extract_keywords m text top_n =
     (if text = [] then returns [] else call_kw_extract m text top_n)"


section \<open>app.py: session state and the fetch buttons\<close>

record session_state =
  my_text :: string
  competitor_text :: string

definition initial_state :: session_state where
  "initial_state = \<lparr>my_text = [], competitor_text = []\<rparr>"

definition fetch_competitor :: "(string \<Rightarrow> string list option) \<Rightarrow> string \<Rightarrow> session_state \<Rightarrow> session_state" where
  "fetch_competitor get_elements comp_url st =
     (if comp_url \<noteq> [] then
        (case fetch_url_content get_elements comp_url of
           None \<Rightarrow> st
         | Some text \<Rightarrow> if text \<noteq> [] then st\<lparr>competitor_text := text\<rparr> else st)
      else st)"

definition fetch_my_page :: "(string \<Rightarrow> string list option) \<Rightarrow> string \<Rightarrow> session_state \<Rightarrow> session_state" where
  "fetch_my_page get_elements my_url st =
     (if my_url \<noteq> [] then
        (case fetch_url_content get_elements my_url of
           None \<Rightarrow> st
         | Some text \<Rightarrow> if text \<noteq> [] then st\<lparr>my_text := text\<rparr> else st)
      else st)"


section \<open>app.py: the analysis\<close>

datatype band = Strong | Moderate | Low

definition relevance_band :: "real \<Rightarrow> band" where
  "relevance_band score =
     (if score > 0.60 then Strong
      else if score > 0.40 then Moderate
      else Low)"

definition missing_kws :: "string list \<Rightarrow> string \<Rightarrow> string list" where
  "missing_kws comp_kws my_content_final =
     [kw \<leftarrow> comp_kws. \<not> py_in (lower kw) (lower my_content_final)]"

definition shared :: "string list \<Rightarrow> string \<Rightarrow> string list" where
  "shared comp_kws my_content_final =
     [kw \<leftarrow> comp_kws. py_in (lower kw) (lower my_content_final)]"

record gap_report =
  gap_missing :: "string list"
  gap_shared :: "string list"

record report =
  rel_score :: real
  rel_band :: band
  gap :: "gap_report option"

text \<open>
  Of the rendering calls, \<^verbatim>\<open>st.progress(score)\<close> on line 131 can stop the analysis:
  Streamlit takes a float between 0.0 and 1.0 there and raises
  \<^verbatim>\<open>StreamlitAPIException\<close> for any other. It runs after the score is shown and before
  the band is chosen. The other rendering calls (\<^verbatim>\<open>st.metric\<close>, \<^verbatim>\<open>st.markdown\<close>,
  \<^verbatim>\<open>st.success\<close>, ...) only display what the run computed.
\<close>

definition st_progress :: "real \<Rightarrow> ('v, unit) run" where
  "st_progress value =
     (if 0 \<le> value \<and> value \<le> 1 then returns () else (Inl StreamlitAPIException, []))"

definition scoring :: "'v models \<Rightarrow> string \<Rightarrow> string \<Rightarrow> ('v, real) run" where
  \<comment> \<open>\<^verbatim>\<open># 1. SCORING\<close>\<close>
  "scoring m target_keyword my_content_final =
     and_then (call_encode m target_keyword) (\<lambda>emb_kw.
     and_then (call_encode m my_content_final) (\<lambda>emb_my.
     call_similarity m emb_kw emb_my))"

definition gap_analysis :: "'v models \<Rightarrow> string \<Rightarrow> string \<Rightarrow> ('v, gap_report) run" where
  \<comment> \<open>\<^verbatim>\<open># 3. GAP ANALYSIS\<close>; \<^verbatim>\<open>my_kws\<close> is computed and not used\<close>
  "gap_analysis m competitor my_content_final =
     and_then (extract_keywords m competitor 25) (\<lambda>comp.
     and_then (extract_keywords m my_content_final 25) (\<lambda>mine.
       let comp_kws = map fst comp;
           my_kws = map fst mine
       in returns \<lparr>gap_missing = missing_kws comp_kws my_content_final,
                   gap_shared = shared comp_kws my_content_final\<rparr>))"

definition analyze :: "'v models \<Rightarrow> string \<Rightarrow> string \<Rightarrow> string \<Rightarrow> ('v, report) run" where
  \<comment> \<open>the body of \<^verbatim>\<open>if analyze_btn:\<close>; the last argument is \<^verbatim>\<open>st.session_state['competitor_text']\<close>\<close>
  "analyze m target_keyword my_content_final competitor =
     (if target_keyword = [] then (Inl (InvalidInput Target_keyword), [])
      else if my_content_final = [] \<or> length (strip my_content_final) < 50
        then (Inl (InvalidInput My_content), [])
      else
        and_then (scoring m target_keyword my_content_final) (\<lambda>score.
        and_then (st_progress score) (\<lambda>_.
          if competitor \<noteq> [] then
            and_then (gap_analysis m competitor my_content_final) (\<lambda>g.
              returns \<lparr>rel_score = score, rel_band = relevance_band score, gap = Some g\<rparr>)
          else
            returns \<lparr>rel_score = score, rel_band = relevance_band score, gap = None\<rparr>)))"


section \<open>relevance_scorer.py\<close>

datatype feedback = EXCELLENT | OKAY | POOR

definition give_feedback :: "real \<Rightarrow> feedback" where
  "give_feedback score =
     (if score > 0.6 then EXCELLENT
      else if score > 0.4 then OKAY
      else POOR)"

datatype round = Break | Continue | Scored real feedback | Raised

definition main_round :: "'v models \<Rightarrow> string \<Rightarrow> string list \<Rightarrow> round \<times> 'v call list" where
  \<comment> \<open>one turn of \<^verbatim>\<open>while True\<close>; \<open>lines\<close> are the lines typed before the first empty one\<close>
  "main_round m target_keyword lines =
     (if target_keyword = [] then (Break, [])
      else
        let content_text = join [CHR 0x0A] lines
        in if content_text = [] then (Continue, [])
           else
             (case scoring m target_keyword content_text of
                (Inl e, cs) \<Rightarrow> (Raised, cs)
              | (Inr score, cs) \<Rightarrow> (Scored score (give_feedback score), cs)))"

section \<open>Concrete inputs\<close>

text \<open>
  Stand-ins for the pretrained models, used to run the definitions: the embedding of a
  text is its length, every similarity is \<open>0.6\<close>, and every text has the same three
  ranked keyphrases.
\<close>

definition demo_models :: "nat models" where
  "demo_models =
     \<lparr>encode = (\<lambda>s. Some (length s)),
      similarity = (\<lambda>a b. Some 0.6),
      kw_extract = (\<lambda>s n. Some (take n
        [(''Cloud Storage'', 0.9), (''encrypted backups'', 0.8), (''data redundancy'', 0.7)]))\<rparr>"

definition demo_content :: string where
  "demo_content = ''Our cloud storage service offers Encrypted Backups.''"

definition failing_models :: "nat models" where
  \<comment> \<open>the keyphrase extractor raises on every text\<close>
  "failing_models = demo_models\<lparr>kw_extract := (\<lambda>s n. None)\<rparr>"

definition picky_models :: "nat models" where
  \<comment> \<open>the keyphrase extractor raises on \<open>demo_content\<close> only\<close>
  "picky_models =
     demo_models\<lparr>kw_extract := (\<lambda>s n. if s = demo_content then None else kw_extract demo_models s n)\<rparr>"

definition silent_models :: "nat models" where
  \<comment> \<open>the keyphrase extractor finds no keyphrase in any text\<close>
  "silent_models = demo_models\<lparr>kw_extract := (\<lambda>s n. Some [])\<rparr>"

definition demo_state :: session_state where
  "demo_state = \<lparr>my_text = ''an earlier page'', competitor_text = ''competitor page''\<rparr>"

definition cold_models :: "nat models" where
  \<comment> \<open>every similarity is \<open>- 0.2\<close>, a negative cosine\<close>
  "cold_models = demo_models\<lparr>similarity := (\<lambda>a b. Some (- 0.2))\<rparr>"

definition demo_web :: "string \<Rightarrow> string list option" where
  "demo_web url =
     (if url = ''https://me.com/blog''
        then Some [''  Menu '', ''  A paragraph that is long enough to be kept.  '']
      else if url = ''https://me.com/empty'' then Some [''Home'', ''About'']
      else None)"


section \<open>Basic facts\<close>

lemma py_in_iff: "py_in sub s \<longleftrightarrow> (\<exists>ps ss. s = ps @ sub @ ss)"
proof (induction s)
  case Nil
  show ?case by auto
next
  case (Cons c cs)
  have "py_in sub (c # cs) \<longleftrightarrow> prefix sub (c # cs) \<or> sublist sub cs"
    using Cons.IH by (simp add: sublist_def)
  also have "\<dots> \<longleftrightarrow> sublist sub (c # cs)"
    by (simp add: sublist_Cons_right)
  finally show ?case by (simp add: sublist_def)
qed

lemma and_then_Inl: "and_then (Inl e, cs) f = (Inl e, cs)"
  by (simp add: and_then_def)

lemma and_then_Inr: "and_then (Inr a, cs) f = (fst (f a), cs @ snd (f a))"
  by (simp add: and_then_def split: prod.splits)

lemma scoring_eq:
  "scoring m kw my =
     (case encode m kw of
        None \<Rightarrow> (Inl ProviderFailure, [Encode kw])
      | Some ek \<Rightarrow>
          (case encode m my of
             None \<Rightarrow> (Inl ProviderFailure, [Encode kw, Encode my])
           | Some em \<Rightarrow>
               (case similarity m ek em of
                  None \<Rightarrow> (Inl ProviderFailure, [Encode kw, Encode my, Similarity ek em])
                | Some s \<Rightarrow> (Inr s, [Encode kw, Encode my, Similarity ek em]))))"
  by (simp add: scoring_def call_encode_def call_similarity_def and_then_Inl and_then_Inr
      split: option.splits)

lemma gap_analysis_eq:
  "competitor \<noteq> [] \<Longrightarrow> my \<noteq> [] \<Longrightarrow>
   gap_analysis m competitor my =
     (case kw_extract m competitor 25 of
        None \<Rightarrow> (Inl ProviderFailure, [Extract_keywords competitor 25])
      | Some ck \<Rightarrow>
          (case kw_extract m my 25 of
             None \<Rightarrow> (Inl ProviderFailure, [Extract_keywords competitor 25, Extract_keywords my 25])
           | Some mk \<Rightarrow>
               (Inr \<lparr>gap_missing = missing_kws (map fst ck) my,
                      gap_shared = shared (map fst ck) my\<rparr>,
                [Extract_keywords competitor 25, Extract_keywords my 25])))"
  by (simp add: gap_analysis_def extract_keywords_def call_kw_extract_def returns_def
      and_then_Inl and_then_Inr Let_def split: option.splits)

lemma strip_Nil: "strip [] = []"
  by (simp add: strip_def)

lemma valid_nonempty: "50 \<le> length (strip my) \<Longrightarrow> my \<noteq> []"
  by (auto simp: strip_Nil)

lemma analyze_out_of_range:
  assumes "kw \<noteq> []" and "50 \<le> length (strip my)"
    and "encode m kw = Some ek" and "encode m my = Some em" and "similarity m ek em = Some s"
    and "s < 0 \<or> 1 < s"
  shows "analyze m kw my competitor =
     (Inl StreamlitAPIException, [Encode kw, Encode my, Similarity ek em])"
  using assms valid_nonempty [of my]
  by (auto simp: analyze_def scoring_eq and_then_Inr and_then_Inl st_progress_def)

lemma analyze_no_competitor:
  assumes "kw \<noteq> []" and "50 \<le> length (strip my)"
    and "encode m kw = Some ek" and "encode m my = Some em" and "similarity m ek em = Some s"
    and "0 \<le> s" and "s \<le> 1"
  shows "analyze m kw my [] =
     (Inr \<lparr>rel_score = s, rel_band = relevance_band s, gap = None\<rparr>,
      [Encode kw, Encode my, Similarity ek em])"
  using assms valid_nonempty [of my]
  by (simp add: analyze_def scoring_eq and_then_Inr st_progress_def returns_def)

lemma analyze_with_competitor:
  assumes "kw \<noteq> []" and "50 \<le> length (strip my)" and "competitor \<noteq> []"
    and "encode m kw = Some ek" and "encode m my = Some em" and "similarity m ek em = Some s"
    and "0 \<le> s" and "s \<le> 1"
    and "kw_extract m competitor 25 = Some ck" and "kw_extract m my 25 = Some mk"
  shows "analyze m kw my competitor =
     (Inr \<lparr>rel_score = s, rel_band = relevance_band s,
            gap = Some \<lparr>gap_missing = missing_kws (map fst ck) my,
                         gap_shared = shared (map fst ck) my\<rparr>\<rparr>,
      [Encode kw, Encode my, Similarity ek em,
       Extract_keywords competitor 25, Extract_keywords my 25])"
  using assms valid_nonempty [of my]
  by (simp add: analyze_def scoring_eq gap_analysis_eq and_then_Inr st_progress_def returns_def)

lemma analyze_extractor_raises:
  assumes "kw \<noteq> []" and "50 \<le> length (strip my)" and "competitor \<noteq> []"
    and "encode m kw = Some ek" and "encode m my = Some em" and "similarity m ek em = Some s"
    and "0 \<le> s" and "s \<le> 1"
  shows "kw_extract m competitor 25 = None \<Longrightarrow>
           analyze m kw my competitor =
             (Inl ProviderFailure,
              [Encode kw, Encode my, Similarity ek em, Extract_keywords competitor 25])"
    and "kw_extract m competitor 25 = Some ck \<Longrightarrow> kw_extract m my 25 = None \<Longrightarrow>
           analyze m kw my competitor =
             (Inl ProviderFailure,
              [Encode kw, Encode my, Similarity ek em,
               Extract_keywords competitor 25, Extract_keywords my 25])"
  using assms valid_nonempty [of my]
  by (simp_all add: analyze_def scoring_eq gap_analysis_eq and_then_Inr and_then_Inl
      st_progress_def returns_def)

lemma analyze_Inr:
  assumes "analyze m kw my competitor = (Inr r, cs)"
  shows "kw \<noteq> [] \<and> 50 \<le> length (strip my) \<and>
         (\<exists>ek em. encode m kw = Some ek \<and> encode m my = Some em \<and>
            similarity m ek em = Some (rel_score r) \<and>
            0 \<le> rel_score r \<and> rel_score r \<le> 1 \<and>
            rel_band r = relevance_band (rel_score r) \<and>
            (if competitor = [] then gap r = None \<and> cs = [Encode kw, Encode my, Similarity ek em]
             else \<exists>ck mk. kw_extract m competitor 25 = Some ck \<and> kw_extract m my 25 = Some mk \<and>
                    gap r = Some \<lparr>gap_missing = missing_kws (map fst ck) my,
                                    gap_shared = shared (map fst ck) my\<rparr> \<and>
                    cs = [Encode kw, Encode my, Similarity ek em,
                          Extract_keywords competitor 25, Extract_keywords my 25]))"
proof -
  from assms have kw: "kw \<noteq> []" and len: "50 \<le> length (strip my)"
    by (auto simp: analyze_def split: if_splits)
  then have my: "my \<noteq> []" by (auto simp: strip_Nil)
  show ?thesis
  proof (cases "competitor = []")
    case True
    with assms kw len my show ?thesis
      by (auto simp: analyze_def scoring_eq and_then_Inr and_then_Inl st_progress_def
          returns_def split: option.splits if_splits)
  next
    case False
    with assms kw len my show ?thesis
      by (auto simp: analyze_def scoring_eq gap_analysis_eq and_then_Inr and_then_Inl
          st_progress_def returns_def split: option.splits if_splits)
  qed
qed

subsection \<open>A run on the concrete inputs\<close>

lemma demo_len: "length (strip demo_content) = 51"
  by code_simp

lemma demo_missing:
  "missing_kws [''Cloud Storage'', ''encrypted backups'', ''data redundancy''] demo_content
     = [''data redundancy'']"
  by code_simp

lemma demo_shared:
  "shared [''Cloud Storage'', ''encrypted backups'', ''data redundancy''] demo_content
     = [''Cloud Storage'', ''encrypted backups'']"
  by code_simp

lemma demo_analyze:
  "analyze demo_models ''cloud storage'' demo_content ''competitor page'' =
     (Inr \<lparr>rel_score = 0.6, rel_band = relevance_band 0.6,
            gap = Some \<lparr>gap_missing = [''data redundancy''],
                         gap_shared = [''Cloud Storage'', ''encrypted backups'']\<rparr>\<rparr>,
      [Encode ''cloud storage'', Encode demo_content, Similarity 13 (length demo_content),
       Extract_keywords ''competitor page'' 25, Extract_keywords demo_content 25])"
proof -
  have "analyze demo_models ''cloud storage'' demo_content ''competitor page'' =
     (Inr \<lparr>rel_score = 0.6, rel_band = relevance_band 0.6,
            gap = Some \<lparr>gap_missing = missing_kws (map fst [(''Cloud Storage'', 0.9::real), (''encrypted backups'', 0.8), (''data redundancy'', 0.7)]) demo_content,
                         gap_shared = shared (map fst [(''Cloud Storage'', 0.9::real), (''encrypted backups'', 0.8), (''data redundancy'', 0.7)]) demo_content\<rparr>\<rparr>,
      [Encode ''cloud storage'', Encode demo_content, Similarity 13 (length demo_content),
       Extract_keywords ''competitor page'' 25, Extract_keywords demo_content 25])"
    by (rule analyze_with_competitor) (simp_all add: demo_len demo_models_def)
  then show ?thesis by (simp add: demo_missing demo_shared)
qed

lemma gap_of_analyze:
  assumes "analyze m kw my competitor = (Inr r, cs)" and "gap r = Some g"
  shows "\<exists>ck ek em. kw_extract m competitor 25 = Some ck \<and>
           gap_missing g = missing_kws (map fst ck) my \<and>
           gap_shared g = shared (map fst ck) my \<and>
           cs = [Encode kw, Encode my, Similarity ek em,
                 Extract_keywords competitor 25, Extract_keywords my 25]"
  using analyze_Inr [OF assms(1)] assms(2)
  by (cases "competitor = []") auto


section \<open>The gap analysis\<close>

text \<open>
  Claim C1. Whenever the analysis returns a gap report, the competitor keyphrases were
  extracted, and each of them is in the shared list if and only if its lower-cased form
  occurs as a contiguous substring of the lower-cased content, and in the missing list
  if and only if it does not.
\<close>

theorem shared_iff_substring:
  assumes "analyze m kw my competitor = (Inr r, cs)" and "gap r = Some g"
  shows "\<exists>ck. kw_extract m competitor 25 = Some ck \<and>
           (\<forall>k \<in> set (map fst ck).
              (k \<in> set (gap_shared g) \<longleftrightarrow> (\<exists>ps ss. lower my = ps @ lower k @ ss)) \<and>
              (k \<in> set (gap_missing g) \<longleftrightarrow> \<not> (\<exists>ps ss. lower my = ps @ lower k @ ss)))"
proof -
  from gap_of_analyze [OF assms] obtain ck where
    ck: "kw_extract m competitor 25 = Some ck"
    and mi: "gap_missing g = missing_kws (map fst ck) my"
    and sh: "gap_shared g = shared (map fst ck) my"
    by blast
  have "\<forall>k \<in> set (map fst ck).
          (k \<in> set (gap_shared g) \<longleftrightarrow> (\<exists>ps ss. lower my = ps @ lower k @ ss)) \<and>
          (k \<in> set (gap_missing g) \<longleftrightarrow> \<not> (\<exists>ps ss. lower my = ps @ lower k @ ss))"
    unfolding mi sh missing_kws_def shared_def py_in_iff by auto
  with ck show ?thesis by blast
qed

theorem shared_iff_substring_witness:
  "analyze demo_models ''cloud storage'' demo_content ''competitor page'' =
     (Inr \<lparr>rel_score = 0.6, rel_band = relevance_band 0.6,
            gap = Some \<lparr>gap_missing = [''data redundancy''],
                         gap_shared = [''Cloud Storage'', ''encrypted backups'']\<rparr>\<rparr>,
      [Encode ''cloud storage'', Encode demo_content, Similarity 13 (length demo_content),
       Extract_keywords ''competitor page'' 25, Extract_keywords demo_content 25])
   \<and> (\<exists>ps ss. lower demo_content = ps @ lower ''Cloud Storage'' @ ss)
   \<and> \<not> (\<exists>ps ss. lower demo_content = ps @ lower ''data redundancy'' @ ss)"
proof -
  let ?g = "\<lparr>gap_missing = [''data redundancy''],
             gap_shared = [''Cloud Storage'', ''encrypted backups'']\<rparr>"
  have "\<exists>ck. kw_extract demo_models ''competitor page'' 25 = Some ck \<and>
           (\<forall>k \<in> set (map fst ck).
              (k \<in> set (gap_shared ?g) \<longleftrightarrow> (\<exists>ps ss. lower demo_content = ps @ lower k @ ss)) \<and>
              (k \<in> set (gap_missing ?g) \<longleftrightarrow> \<not> (\<exists>ps ss. lower demo_content = ps @ lower k @ ss)))"
    by (rule shared_iff_substring [OF demo_analyze]) simp
  then have "\<forall>k \<in> {''Cloud Storage'', ''encrypted backups'', ''data redundancy''}.
              (k \<in> set (gap_shared ?g) \<longleftrightarrow> (\<exists>ps ss. lower demo_content = ps @ lower k @ ss)) \<and>
              (k \<in> set (gap_missing ?g) \<longleftrightarrow> \<not> (\<exists>ps ss. lower demo_content = ps @ lower k @ ss))"
    by (simp add: demo_models_def)
  then have "(\<exists>ps ss. lower demo_content = ps @ lower ''Cloud Storage'' @ ss)
      \<and> \<not> (\<exists>ps ss. lower demo_content = ps @ lower ''data redundancy'' @ ss)"
    by simp
  with demo_analyze show ?thesis by blast
qed

text \<open>
  Claim C2. The missing and shared lists partition the competitor keyphrases: together
  they hold exactly the competitor keyphrases, each occurrence once, no keyphrase is in
  both, and each list is a subsequence of the competitor ranking, so the ranking order
  is kept.
\<close>

theorem gap_partition:
  assumes "analyze m kw my competitor = (Inr r, cs)" and "gap r = Some g"
  shows "\<exists>ck. kw_extract m competitor 25 = Some ck \<and>
           set (gap_missing g) \<union> set (gap_shared g) = set (map fst ck) \<and>
           set (gap_missing g) \<inter> set (gap_shared g) = {} \<and>
           mset (gap_missing g) + mset (gap_shared g) = mset (map fst ck) \<and>
           subseq (gap_missing g) (map fst ck) \<and>
           subseq (gap_shared g) (map fst ck)"
proof -
  from gap_of_analyze [OF assms] obtain ck where
    ck: "kw_extract m competitor 25 = Some ck"
    and mi: "gap_missing g = missing_kws (map fst ck) my"
    and sh: "gap_shared g = shared (map fst ck) my"
    by blast
  let ?P = "\<lambda>k. py_in (lower k) (lower my)"
  have u: "set (gap_missing g) \<union> set (gap_shared g) = set (map fst ck)"
    unfolding mi sh missing_kws_def shared_def by auto
  have i: "set (gap_missing g) \<inter> set (gap_shared g) = {}"
    unfolding mi sh missing_kws_def shared_def by auto
  have "mset (filter ?P (map fst ck)) + mset (filter (\<lambda>k. \<not> ?P k) (map fst ck)) = mset (map fst ck)"
    by (simp only: mset_filter multiset_partition [symmetric])
  then have ms: "mset (gap_missing g) + mset (gap_shared g) = mset (map fst ck)"
    unfolding mi sh missing_kws_def shared_def by (simp add: add.commute)
  have s1: "subseq (gap_missing g) (map fst ck)" and s2: "subseq (gap_shared g) (map fst ck)"
    unfolding mi sh missing_kws_def shared_def by simp_all
  from ck u i ms s1 s2 show ?thesis by blast
qed

theorem gap_partition_witness:
  "kw_extract demo_models ''competitor page'' 25 =
     Some [(''Cloud Storage'', 0.9), (''encrypted backups'', 0.8), (''data redundancy'', 0.7)] \<and>
   set [''data redundancy''] \<union> set [''Cloud Storage'', ''encrypted backups'']
     = set [''Cloud Storage'', ''encrypted backups'', ''data redundancy''] \<and>
   subseq [''Cloud Storage'', ''encrypted backups'']
     [''Cloud Storage'', ''encrypted backups'', ''data redundancy'']"
proof -
  let ?g = "\<lparr>gap_missing = [''data redundancy''],
             gap_shared = [''Cloud Storage'', ''encrypted backups'']\<rparr>"
  have "\<exists>ck. kw_extract demo_models ''competitor page'' 25 = Some ck \<and>
           set (gap_missing ?g) \<union> set (gap_shared ?g) = set (map fst ck) \<and>
           set (gap_missing ?g) \<inter> set (gap_shared ?g) = {} \<and>
           mset (gap_missing ?g) + mset (gap_shared ?g) = mset (map fst ck) \<and>
           subseq (gap_missing ?g) (map fst ck) \<and>
           subseq (gap_shared ?g) (map fst ck)"
    by (rule gap_partition [OF demo_analyze]) simp
  then show ?thesis
    by (simp add: demo_models_def)
qed


section \<open>Input validation\<close>

text \<open>
  Claim C5. With an empty target keyword, or with content shorter than 50 characters
  after stripping, the analysis stops with \<open>InvalidInput\<close> naming the field and the
  list of model calls is empty, whatever the other inputs are.
\<close>

theorem invalid_input_no_calls:
  "kw = [] \<or> length (strip my) < 50 \<Longrightarrow>
   analyze m kw my competitor =
     (Inl (InvalidInput (if kw = [] then Target_keyword else My_content)), [])"
  by (auto simp: analyze_def)

theorem invalid_input_no_calls_witness:
  "analyze demo_models ''cloud storage'' ''short'' ''competitor page''
     = (Inl (InvalidInput My_content), []) \<and>
   analyze demo_models [] demo_content ''competitor page''
     = (Inl (InvalidInput Target_keyword), [])"
proof -
  have "length (strip ''short'') < 50" by code_simp
  then show ?thesis
    using invalid_input_no_calls [of "''cloud storage''" "''short''" demo_models "''competitor page''"]
      invalid_input_no_calls [of "[]" demo_content demo_models "''competitor page''"]
    by simp
qed


section \<open>The relevance score\<close>

text \<open>The two chains of comparisons draw the same lines, on every score.\<close>

lemma relevance_band_iff:
  "(relevance_band s = Strong \<longleftrightarrow> s > 0.60) \<and>
   (relevance_band s = Moderate \<longleftrightarrow> 0.40 < s \<and> s \<le> 0.60) \<and>
   (relevance_band s = Low \<longleftrightarrow> s \<le> 0.40)"
  by (simp add: relevance_band_def)

lemma give_feedback_iff:
  "(give_feedback s = EXCELLENT \<longleftrightarrow> s > 0.60) \<and>
   (give_feedback s = OKAY \<longleftrightarrow> 0.40 < s \<and> s \<le> 0.60) \<and>
   (give_feedback s = POOR \<longleftrightarrow> s \<le> 0.40)"
  by (simp add: give_feedback_def)

text \<open>A turn of the command-line script on a keyword and a non-empty text.\<close>

lemma main_round_scored:
  assumes "kw \<noteq> []" and "join [CHR 0x0A] lines \<noteq> []"
    and "encode m kw = Some ek" and "encode m (join [CHR 0x0A] lines) = Some em"
    and "similarity m ek em = Some s"
  shows "main_round m kw lines =
           (Scored s (give_feedback s),
            [Encode kw, Encode (join [CHR 0x0A] lines), Similarity ek em])"
  using assms by (simp add: main_round_def scoring_eq)

text \<open>
  Claim C3 gives every score a band: Strong above 0.60, Moderate above 0.40 and up to
  0.60, Low up to 0.40. The chain of \<^verbatim>\<open>app.py\<close> says so, and \<^verbatim>\<open>relevance_scorer.py\<close>
  labels every score. In \<^verbatim>\<open>app.py\<close> the chain is not reached for a score outside 0.0
  to 1.0: with a similarity of \<open>- 0.2\<close>, which the chain would call Low and the
  command-line script calls POOR, the analysis stops at \<^verbatim>\<open>st.progress\<close> with
  \<^verbatim>\<open>StreamlitAPIException\<close> and no band is assigned.
\<close>

theorem no_band_below_zero:
  "analyze cold_models ''cloud storage'' demo_content [] =
     (Inl StreamlitAPIException,
      [Encode ''cloud storage'', Encode demo_content, Similarity 13 51]) \<and>
   relevance_band (- 0.2) = Low \<and>
   main_round cold_models ''cloud storage'' [demo_content] =
     (Scored (- 0.2) POOR,
      [Encode ''cloud storage'', Encode demo_content, Similarity 13 51])"
proof -
  have e: "encode cold_models ''cloud storage'' = Some 13"
    "encode cold_models demo_content = Some 51"
    "similarity cold_models 13 51 = Some (- 0.2)"
    by (simp_all add: cold_models_def demo_models_def demo_content_def)
  have n: "demo_content \<noteq> []"
    by (simp add: demo_content_def)
  have "analyze cold_models ''cloud storage'' demo_content [] =
     (Inl StreamlitAPIException,
      [Encode ''cloud storage'', Encode demo_content, Similarity 13 51])"
    by (rule analyze_out_of_range [where s = "- 0.2"]) (use e demo_len in simp_all)
  moreover have "relevance_band (- 0.2) = Low"
    by (simp add: relevance_band_iff)
  moreover have "give_feedback (- 0.2) = POOR"
    by (simp add: give_feedback_iff)
  then have "main_round cold_models ''cloud storage'' [demo_content] =
     (Scored (- 0.2) POOR,
      [Encode ''cloud storage'', Encode demo_content, Similarity 13 51])"
    using main_round_scored [of "''cloud storage''" "[demo_content]" cold_models 13 51 "- 0.2"] e n
    by simp
  ultimately show ?thesis by blast
qed

text \<open>Without a competitor text, no run of the analysis calls the keyphrase extractor.\<close>

lemma calls_no_competitor:
  "\<forall>c \<in> set (snd (analyze m kw my [])). \<forall>s n. c \<noteq> Extract_keywords s n"
  by (auto simp: analyze_def scoring_eq and_then_Inr and_then_Inl st_progress_def returns_def
      split: option.splits if_splits)

text \<open>On valid inputs the calls of the scoring step come first in every run.\<close>

lemma scoring_calls_first:
  assumes "kw \<noteq> []" and "50 \<le> length (strip my)"
    and "encode m kw = Some ek" and "encode m my = Some em" and "similarity m ek em = Some s"
  shows "prefix [Encode kw, Encode my, Similarity ek em] (snd (analyze m kw my competitor))"
proof -
  have "scoring m kw my = (Inr s, [Encode kw, Encode my, Similarity ek em])"
    using assms by (simp add: scoring_eq)
  then have "snd (analyze m kw my competitor) = [Encode kw, Encode my, Similarity ek em] @
      snd (and_then (st_progress s) (\<lambda>_.
          if competitor \<noteq> [] then
            and_then (gap_analysis m competitor my) (\<lambda>g.
              returns \<lparr>rel_score = s, rel_band = relevance_band s, gap = Some g\<rparr>)
          else
            returns \<lparr>rel_score = s, rel_band = relevance_band s, gap = None\<rparr>))"
    using assms valid_nonempty [of my] by (simp add: analyze_def and_then_Inr)
  then show ?thesis by (simp only: prefixI)
qed

text \<open>
  Claim C6. With an empty competitor text, every report the analysis returns has no gap
  report (\<open>None\<close>, which is not the report with two empty lists) and the keyphrase
  extractor is never called. On valid inputs, when the model calls succeed, the score
  is still computed: the scoring step returns it and its three calls are the calls of
  the run. The report with that score is returned when the score lies between 0 and 1;
  for any other score the run stops at \<^verbatim>\<open>st.progress\<close>, still without a gap report.
\<close>

theorem no_competitor_no_gap:
  "(\<forall>r cs. analyze m kw my [] = (Inr r, cs) \<longrightarrow> gap r = None) \<and>
   (\<forall>c \<in> set (snd (analyze m kw my [])). \<forall>s n. c \<noteq> Extract_keywords s n) \<and>
   (kw \<noteq> [] \<and> 50 \<le> length (strip my) \<and>
    encode m kw = Some ek \<and> encode m my = Some em \<and> similarity m ek em = Some s \<longrightarrow>
      scoring m kw my = (Inr s, [Encode kw, Encode my, Similarity ek em]) \<and>
      snd (analyze m kw my []) = [Encode kw, Encode my, Similarity ek em] \<and>
      (0 \<le> s \<and> s \<le> 1 \<longrightarrow>
         fst (analyze m kw my []) =
           Inr \<lparr>rel_score = s, rel_band = relevance_band s, gap = None\<rparr>) \<and>
      (s < 0 \<or> 1 < s \<longrightarrow> fst (analyze m kw my []) = Inl StreamlitAPIException))"
proof -
  have a: "\<forall>r cs. analyze m kw my [] = (Inr r, cs) \<longrightarrow> gap r = None"
    using analyze_Inr [of m kw my "[]"] by auto
  have b: "scoring m kw my = (Inr s, [Encode kw, Encode my, Similarity ek em]) \<and>
      snd (analyze m kw my []) = [Encode kw, Encode my, Similarity ek em] \<and>
      (0 \<le> s \<and> s \<le> 1 \<longrightarrow>
         fst (analyze m kw my []) =
           Inr \<lparr>rel_score = s, rel_band = relevance_band s, gap = None\<rparr>) \<and>
      (s < 0 \<or> 1 < s \<longrightarrow> fst (analyze m kw my []) = Inl StreamlitAPIException)"
    if h: "kw \<noteq> []" "50 \<le> length (strip my)"
      "encode m kw = Some ek" "encode m my = Some em" "similarity m ek em = Some s"
  proof (cases "0 \<le> s \<and> s \<le> 1")
    case True
    then have "analyze m kw my [] =
        (Inr \<lparr>rel_score = s, rel_band = relevance_band s, gap = None\<rparr>,
         [Encode kw, Encode my, Similarity ek em])"
      using analyze_no_competitor [OF h] by simp
    with h True show ?thesis by (simp add: scoring_eq)
  next
    case False
    then have "s < 0 \<or> 1 < s" by auto
    then have "analyze m kw my [] =
        (Inl StreamlitAPIException, [Encode kw, Encode my, Similarity ek em])"
      by (rule analyze_out_of_range [OF h])
    with h False show ?thesis by (simp add: scoring_eq)
  qed
  from a calls_no_competitor [of m kw my] b show ?thesis by blast
qed

theorem no_competitor_no_gap_witness:
  "analyze demo_models ''cloud storage'' demo_content [] =
     (Inr \<lparr>rel_score = 0.6, rel_band = relevance_band 0.6, gap = None\<rparr>,
      [Encode ''cloud storage'', Encode demo_content, Similarity 13 51]) \<and>
   gap \<lparr>rel_score = 0.6, rel_band = relevance_band 0.6, gap = None\<rparr>
     \<noteq> Some \<lparr>gap_missing = [], gap_shared = []\<rparr> \<and>
   scoring cold_models ''cloud storage'' demo_content =
     (Inr (- 0.2), [Encode ''cloud storage'', Encode demo_content, Similarity 13 51]) \<and>
   fst (analyze cold_models ''cloud storage'' demo_content []) = Inl StreamlitAPIException"
proof -
  have "encode demo_models ''cloud storage'' = Some 13"
    and "encode demo_models demo_content = Some 51"
    and "similarity demo_models 13 51 = Some 0.6"
    and "encode cold_models ''cloud storage'' = Some 13"
    and "encode cold_models demo_content = Some 51"
    and "similarity cold_models 13 51 = Some (- 0.2)"
    by (simp_all add: cold_models_def demo_models_def demo_content_def)
  then show ?thesis
    using no_competitor_no_gap [of demo_models "''cloud storage''" demo_content 13 51 "0.6"]
      no_competitor_no_gap [of cold_models "''cloud storage''" demo_content 13 51 "- 0.2"]
      demo_len
    by (simp add: prod_eq_iff)
qed

text \<open>
  Claim C7. The score of every report is the value \<^verbatim>\<open>model.similarity\<close> returned for the
  embeddings \<^verbatim>\<open>model.encode\<close> returned for the keyword and for the content, unchanged.
  On a non-empty keyword and content of at least 50 stripped characters, when these
  three calls succeed, that value is what the scoring step returns, its calls come
  first in every run, every report returned carries it, with or without a competitor
  text, and a report is returned when the score lies between 0 and 1 and the gap
  analysis, if it runs, does not raise. The command-line script returns it for every
  score.
\<close>

theorem score_is_similarity:
  "(\<forall>r cs. analyze m kw my competitor = (Inr r, cs) \<longrightarrow>
      (\<exists>ek em. encode m kw = Some ek \<and> encode m my = Some em \<and>
         similarity m ek em = Some (rel_score r))) \<and>
   (kw \<noteq> [] \<and> 50 \<le> length (strip my) \<and>
    encode m kw = Some ek \<and> encode m my = Some em \<and> similarity m ek em = Some s \<longrightarrow>
      scoring m kw my = (Inr s, [Encode kw, Encode my, Similarity ek em]) \<and>
      prefix [Encode kw, Encode my, Similarity ek em] (snd (analyze m kw my competitor)) \<and>
      (\<forall>r cs. analyze m kw my competitor = (Inr r, cs) \<longrightarrow> rel_score r = s) \<and>
      (0 \<le> s \<and> s \<le> 1 \<and> competitor = [] \<longrightarrow>
         fst (analyze m kw my competitor) =
           Inr \<lparr>rel_score = s, rel_band = relevance_band s, gap = None\<rparr>) \<and>
      (0 \<le> s \<and> s \<le> 1 \<and> competitor \<noteq> [] \<and>
       kw_extract m competitor 25 \<noteq> None \<and> kw_extract m my 25 \<noteq> None \<longrightarrow>
         (\<exists>g. fst (analyze m kw my competitor) =
           Inr \<lparr>rel_score = s, rel_band = relevance_band s, gap = Some g\<rparr>)) \<and>
      (\<forall>lines. join [CHR 0x0A] lines = my \<longrightarrow>
         main_round m kw lines =
           (Scored s (give_feedback s), [Encode kw, Encode my, Similarity ek em])))"
proof -
  have a: "\<forall>r cs. analyze m kw my competitor = (Inr r, cs) \<longrightarrow>
      (\<exists>ek em. encode m kw = Some ek \<and> encode m my = Some em \<and>
         similarity m ek em = Some (rel_score r))"
    using analyze_Inr [of m kw my competitor] by blast
  have b: "scoring m kw my = (Inr s, [Encode kw, Encode my, Similarity ek em]) \<and>
      prefix [Encode kw, Encode my, Similarity ek em] (snd (analyze m kw my competitor)) \<and>
      (\<forall>r cs. analyze m kw my competitor = (Inr r, cs) \<longrightarrow> rel_score r = s) \<and>
      (0 \<le> s \<and> s \<le> 1 \<and> competitor = [] \<longrightarrow>
         fst (analyze m kw my competitor) =
           Inr \<lparr>rel_score = s, rel_band = relevance_band s, gap = None\<rparr>) \<and>
      (0 \<le> s \<and> s \<le> 1 \<and> competitor \<noteq> [] \<and>
       kw_extract m competitor 25 \<noteq> None \<and> kw_extract m my 25 \<noteq> None \<longrightarrow>
         (\<exists>g. fst (analyze m kw my competitor) =
           Inr \<lparr>rel_score = s, rel_band = relevance_band s, gap = Some g\<rparr>)) \<and>
      (\<forall>lines. join [CHR 0x0A] lines = my \<longrightarrow>
         main_round m kw lines =
           (Scored s (give_feedback s), [Encode kw, Encode my, Similarity ek em]))"
    if h: "kw \<noteq> []" "50 \<le> length (strip my)"
      "encode m kw = Some ek" "encode m my = Some em" "similarity m ek em = Some s"
  proof -
    have 1: "scoring m kw my = (Inr s, [Encode kw, Encode my, Similarity ek em])"
      using h by (simp add: scoring_eq)
    note 2 = scoring_calls_first [OF h, of competitor]
    have 3: "\<forall>r cs. analyze m kw my competitor = (Inr r, cs) \<longrightarrow> rel_score r = s"
      using analyze_Inr [of m kw my competitor] h by auto
    have 4: "fst (analyze m kw my competitor) =
           Inr \<lparr>rel_score = s, rel_band = relevance_band s, gap = None\<rparr>"
      if "0 \<le> s \<and> s \<le> 1 \<and> competitor = []"
      using analyze_no_competitor [OF h] that by simp
    have 5: "\<exists>g. fst (analyze m kw my competitor) =
           Inr \<lparr>rel_score = s, rel_band = relevance_band s, gap = Some g\<rparr>"
      if t: "0 \<le> s \<and> s \<le> 1 \<and> competitor \<noteq> [] \<and>
         kw_extract m competitor 25 \<noteq> None \<and> kw_extract m my 25 \<noteq> None"
    proof -
      from t obtain ck mk where "kw_extract m competitor 25 = Some ck"
        and "kw_extract m my 25 = Some mk" by auto
      then show ?thesis
        using analyze_with_competitor [of kw my competitor m ek em s ck mk] h t by simp
    qed
    have 6: "\<forall>lines. join [CHR 0x0A] lines = my \<longrightarrow>
         main_round m kw lines =
           (Scored s (give_feedback s), [Encode kw, Encode my, Similarity ek em])"
      using h valid_nonempty [of my] main_round_scored [of kw _ m ek em s] by auto
    from 1 2 3 4 5 6 show ?thesis by blast
  qed
  from a b show ?thesis by blast
qed

theorem score_is_similarity_witness:
  "scoring demo_models ''cloud storage'' demo_content =
     (Inr 0.6, [Encode ''cloud storage'', Encode demo_content, Similarity 13 51]) \<and>
   fst (analyze demo_models ''cloud storage'' demo_content []) =
     Inr \<lparr>rel_score = 0.6, rel_band = relevance_band 0.6, gap = None\<rparr> \<and>
   main_round demo_models ''cloud storage'' [demo_content] =
     (Scored 0.6 (give_feedback 0.6),
      [Encode ''cloud storage'', Encode demo_content, Similarity 13 51])"
proof -
  have "encode demo_models ''cloud storage'' = Some 13"
    and "encode demo_models demo_content = Some 51"
    and "similarity demo_models 13 51 = Some 0.6"
    by (simp_all add: demo_models_def demo_content_def)
  then show ?thesis
    using score_is_similarity
      [of demo_models "''cloud storage''" demo_content "[]" 13 51 "0.6"] demo_len
    by simp
qed


section \<open>The keyphrase extractor in the gap analysis\<close>

lemma demo_differs: "''competitor page'' \<noteq> demo_content"
  by (simp add: demo_content_def)

text \<open>
  Claim C4 says that the keyphrases of the user's content are not extracted. On the
  concrete inputs the analysis calls the extractor on the competitor text and then on
  the user's content, and an extractor that raises on the user's content stops it.
\<close>

theorem user_keyphrases_extracted:
  "snd (analyze demo_models ''cloud storage'' demo_content ''competitor page'') =
     [Encode ''cloud storage'', Encode demo_content, Similarity 13 51,
      Extract_keywords ''competitor page'' 25, Extract_keywords demo_content 25] \<and>
   analyze picky_models ''cloud storage'' demo_content ''competitor page'' =
     (Inl ProviderFailure,
      [Encode ''cloud storage'', Encode demo_content, Similarity 13 51,
       Extract_keywords ''competitor page'' 25, Extract_keywords demo_content 25])"
proof -
  have l: "length demo_content = 51"
    by (simp add: demo_content_def)
  have "demo_content \<noteq> []"
    by (simp add: demo_content_def)
  then have "analyze picky_models ''cloud storage'' demo_content ''competitor page'' =
     (Inl ProviderFailure,
      [Encode ''cloud storage'', Encode demo_content, Similarity 13 51,
       Extract_keywords ''competitor page'' 25, Extract_keywords demo_content 25])"
    using demo_len demo_differs l
    by (simp add: analyze_def scoring_eq gap_analysis_eq and_then_Inr and_then_Inl
        st_progress_def returns_def picky_models_def demo_models_def)
  with demo_analyze l show ?thesis by simp
qed

text \<open>
  Claim C4, amended. Whenever the analysis returns a gap report, the extractor was called
  on the competitor text and then on the user's content, both with \<open>top_n = 25\<close>; the
  two lists are the competitor keyphrases filtered by containment in the raw
  lower-cased content; and the keyphrases of the user's content are not used: whatever
  list the extractor returns for the content, the report is the same.
\<close>

theorem gap_from_raw_text:
  assumes "analyze m kw my competitor = (Inr r, cs)" and "gap r = Some g"
  shows "\<exists>ek em ck.
           cs = [Encode kw, Encode my, Similarity ek em,
                 Extract_keywords competitor 25, Extract_keywords my 25] \<and>
           kw_extract m competitor 25 = Some ck \<and>
           gap_missing g = [k \<leftarrow> map fst ck. \<not> py_in (lower k) (lower my)] \<and>
           gap_shared g = [k \<leftarrow> map fst ck. py_in (lower k) (lower my)] \<and>
           (my \<noteq> competitor \<longrightarrow>
              (\<forall>mk. fst (analyze (m\<lparr>kw_extract := (kw_extract m)(my := \<lambda>n. Some mk)\<rparr>)
                          kw my competitor) = Inr r))"
proof -
  from analyze_Inr [OF assms(1)] assms(2) obtain ek em ck mk0 where
    v: "kw \<noteq> []" "50 \<le> length (strip my)" "competitor \<noteq> []"
    and e: "encode m kw = Some ek" "encode m my = Some em"
      "similarity m ek em = Some (rel_score r)"
    and i: "0 \<le> rel_score r" "rel_score r \<le> 1"
    and b: "rel_band r = relevance_band (rel_score r)"
    and k: "kw_extract m competitor 25 = Some ck" "kw_extract m my 25 = Some mk0"
    and g: "gap r = Some \<lparr>gap_missing = missing_kws (map fst ck) my,
                          gap_shared = shared (map fst ck) my\<rparr>"
    and c: "cs = [Encode kw, Encode my, Similarity ek em,
                  Extract_keywords competitor 25, Extract_keywords my 25]"
    by (cases "competitor = []") auto
  have r: "r = \<lparr>rel_score = rel_score r, rel_band = relevance_band (rel_score r),
                gap = Some \<lparr>gap_missing = missing_kws (map fst ck) my,
                             gap_shared = shared (map fst ck) my\<rparr>\<rparr>"
    using b g by simp
  have "fst (analyze (m\<lparr>kw_extract := (kw_extract m)(my := \<lambda>n. Some mk)\<rparr>) kw my competitor) = Inr r"
    if "my \<noteq> competitor" for mk
  proof -
    let ?m = "m\<lparr>kw_extract := (kw_extract m)(my := \<lambda>n. Some mk)\<rparr>"
    have "analyze ?m kw my competitor =
       (Inr \<lparr>rel_score = rel_score r, rel_band = relevance_band (rel_score r),
              gap = Some \<lparr>gap_missing = missing_kws (map fst ck) my,
                           gap_shared = shared (map fst ck) my\<rparr>\<rparr>,
        [Encode kw, Encode my, Similarity ek em,
         Extract_keywords competitor 25, Extract_keywords my 25])"
      by (rule analyze_with_competitor [where mk = mk]) (use v e i k that in simp_all)
    with r show ?thesis by simp
  qed
  moreover have "gap_missing g = [k \<leftarrow> map fst ck. \<not> py_in (lower k) (lower my)]"
    and "gap_shared g = [k \<leftarrow> map fst ck. py_in (lower k) (lower my)]"
    using g assms(2) by (auto simp: missing_kws_def shared_def)
  ultimately show ?thesis using c k(1) by blast
qed

theorem gap_from_raw_text_witness:
  "fst (analyze (demo_models\<lparr>kw_extract := (kw_extract demo_models)(demo_content := \<lambda>n. Some [])\<rparr>)
          ''cloud storage'' demo_content ''competitor page'') =
     Inr \<lparr>rel_score = 0.6, rel_band = relevance_band 0.6,
          gap = Some \<lparr>gap_missing = [''data redundancy''],
                       gap_shared = [''Cloud Storage'', ''encrypted backups'']\<rparr>\<rparr>"
proof -
  let ?g = "\<lparr>gap_missing = [''data redundancy''],
             gap_shared = [''Cloud Storage'', ''encrypted backups'']\<rparr>"
  let ?r = "\<lparr>rel_score = 0.6, rel_band = relevance_band 0.6, gap = Some ?g\<rparr>"
  have "gap ?r = Some ?g" by simp
  from gap_from_raw_text [OF demo_analyze this]
  have "demo_content \<noteq> ''competitor page'' \<longrightarrow>
     (\<forall>mk. fst (analyze (demo_models\<lparr>kw_extract := (kw_extract demo_models)(demo_content := \<lambda>n. Some mk)\<rparr>)
                  ''cloud storage'' demo_content ''competitor page'') = Inr ?r)"
    by blast
  with demo_differs show ?thesis by (simp add: neq_commute)
qed

text \<open>
  Claim C9 says that a failing extraction yields an empty keyphrase sequence. With an
  extractor that raises, \<^verbatim>\<open>extract_keywords\<close> raises as well and the analysis stops
  after the score, without a gap report.
\<close>

theorem extractor_failure_propagates:
  "extract_keywords failing_models ''competitor page'' 25 =
     (Inl ProviderFailure, [Extract_keywords ''competitor page'' 25]) \<and>
   analyze failing_models ''cloud storage'' demo_content ''competitor page'' =
     (Inl ProviderFailure,
      [Encode ''cloud storage'', Encode demo_content, Similarity 13 51,
       Extract_keywords ''competitor page'' 25])"
proof -
  have l: "length demo_content = 51" and n: "demo_content \<noteq> []"
    by (simp_all add: demo_content_def)
  have "extract_keywords failing_models ''competitor page'' 25 =
     (Inl ProviderFailure, [Extract_keywords ''competitor page'' 25])"
    by (simp add: extract_keywords_def call_kw_extract_def failing_models_def)
  moreover have "analyze failing_models ''cloud storage'' demo_content ''competitor page'' =
     (Inl ProviderFailure,
      [Encode ''cloud storage'', Encode demo_content, Similarity 13 51,
       Extract_keywords ''competitor page'' 25])"
    using demo_len l n
    by (simp add: analyze_def scoring_eq gap_analysis_eq and_then_Inr and_then_Inl
        st_progress_def returns_def failing_models_def demo_models_def)
  ultimately show ?thesis by blast
qed

text \<open>
  Claim C9, amended. On the empty text \<^verbatim>\<open>extract_keywords\<close> returns the empty sequence
  without calling the extractor; when the extractor returns an empty sequence, so does
  \<^verbatim>\<open>extract_keywords\<close>; when the extractor raises on a non-empty text, the exception
  is not caught. In an analysis that reaches the gap analysis (valid inputs, a score
  between 0 and 1, a competitor text): if the competitor text has no keyphrases, the
  report has empty missing and shared lists; if the extractor raises, on the competitor
  text or on the content, the analysis stops there with that failure and no report.
\<close>

theorem empty_keyphrases_give_empty_gap:
  "extract_keywords m [] top_n = (Inr [], []) \<and>
   (kw_extract m s top_n = Some [] \<longrightarrow> fst (extract_keywords m s top_n) = Inr []) \<and>
   (s \<noteq> [] \<and> kw_extract m s top_n = None \<longrightarrow>
      extract_keywords m s top_n = (Inl ProviderFailure, [Extract_keywords s top_n])) \<and>
   (kw \<noteq> [] \<and> 50 \<le> length (strip my) \<and> competitor \<noteq> [] \<and>
    encode m kw = Some ek \<and> encode m my = Some em \<and> similarity m ek em = Some sc \<and>
    0 \<le> sc \<and> sc \<le> 1 \<longrightarrow>
      (kw_extract m competitor 25 = Some [] \<and> kw_extract m my 25 = Some mk \<longrightarrow>
         fst (analyze m kw my competitor) =
           Inr \<lparr>rel_score = sc, rel_band = relevance_band sc,
                gap = Some \<lparr>gap_missing = [], gap_shared = []\<rparr>\<rparr>) \<and>
      (kw_extract m competitor 25 = None \<longrightarrow>
         analyze m kw my competitor =
           (Inl ProviderFailure,
            [Encode kw, Encode my, Similarity ek em, Extract_keywords competitor 25])) \<and>
      (kw_extract m competitor 25 \<noteq> None \<and> kw_extract m my 25 = None \<longrightarrow>
         analyze m kw my competitor =
           (Inl ProviderFailure,
            [Encode kw, Encode my, Similarity ek em,
             Extract_keywords competitor 25, Extract_keywords my 25])))"
proof -
  have 1: "extract_keywords m [] top_n = (Inr [], [])"
    by (simp add: extract_keywords_def returns_def)
  have 2: "kw_extract m s top_n = Some [] \<longrightarrow> fst (extract_keywords m s top_n) = Inr []"
    by (simp add: extract_keywords_def returns_def call_kw_extract_def)
  have 3: "s \<noteq> [] \<and> kw_extract m s top_n = None \<longrightarrow>
      extract_keywords m s top_n = (Inl ProviderFailure, [Extract_keywords s top_n])"
    by (simp add: extract_keywords_def call_kw_extract_def)
  have 4: "(kw_extract m competitor 25 = Some [] \<and> kw_extract m my 25 = Some mk \<longrightarrow>
         fst (analyze m kw my competitor) =
           Inr \<lparr>rel_score = sc, rel_band = relevance_band sc,
                gap = Some \<lparr>gap_missing = [], gap_shared = []\<rparr>\<rparr>) \<and>
      (kw_extract m competitor 25 = None \<longrightarrow>
         analyze m kw my competitor =
           (Inl ProviderFailure,
            [Encode kw, Encode my, Similarity ek em, Extract_keywords competitor 25])) \<and>
      (kw_extract m competitor 25 \<noteq> None \<and> kw_extract m my 25 = None \<longrightarrow>
         analyze m kw my competitor =
           (Inl ProviderFailure,
            [Encode kw, Encode my, Similarity ek em,
             Extract_keywords competitor 25, Extract_keywords my 25]))"
    if h: "kw \<noteq> []" "50 \<le> length (strip my)" "competitor \<noteq> []"
      "encode m kw = Some ek" "encode m my = Some em" "similarity m ek em = Some sc"
      "0 \<le> sc" "sc \<le> 1"
  proof -
    have "fst (analyze m kw my competitor) =
           Inr \<lparr>rel_score = sc, rel_band = relevance_band sc,
                gap = Some \<lparr>gap_missing = [], gap_shared = []\<rparr>\<rparr>"
      if "kw_extract m competitor 25 = Some []" "kw_extract m my 25 = Some mk"
      using analyze_with_competitor [OF h that] by (simp add: missing_kws_def shared_def)
    moreover have "analyze m kw my competitor =
           (Inl ProviderFailure,
            [Encode kw, Encode my, Similarity ek em, Extract_keywords competitor 25])"
      if "kw_extract m competitor 25 = None"
      using analyze_extractor_raises(1) [OF h that] .
    moreover have "analyze m kw my competitor =
           (Inl ProviderFailure,
            [Encode kw, Encode my, Similarity ek em,
             Extract_keywords competitor 25, Extract_keywords my 25])"
      if "kw_extract m competitor 25 \<noteq> None \<and> kw_extract m my 25 = None"
    proof -
      from that obtain ck where "kw_extract m competitor 25 = Some ck"
        and "kw_extract m my 25 = None" by auto
      then show ?thesis by (rule analyze_extractor_raises(2) [OF h])
    qed
    ultimately show ?thesis by blast
  qed
  from 1 2 3 4 show ?thesis by blast
qed

theorem empty_keyphrases_give_empty_gap_witness:
  "fst (analyze silent_models ''cloud storage'' demo_content ''competitor page'') =
     Inr \<lparr>rel_score = 0.6, rel_band = relevance_band 0.6,
          gap = Some \<lparr>gap_missing = [], gap_shared = []\<rparr>\<rparr> \<and>
   fst (extract_keywords silent_models ''competitor page'' 25) = Inr [] \<and>
   extract_keywords failing_models ''competitor page'' 25 =
     (Inl ProviderFailure, [Extract_keywords ''competitor page'' 25]) \<and>
   analyze picky_models ''cloud storage'' demo_content ''competitor page'' =
     (Inl ProviderFailure,
      [Encode ''cloud storage'', Encode demo_content, Similarity 13 51,
       Extract_keywords ''competitor page'' 25, Extract_keywords demo_content 25])"
proof -
  have "encode silent_models ''cloud storage'' = Some 13"
    and "encode silent_models demo_content = Some 51"
    and "similarity silent_models 13 51 = Some 0.6"
    and "kw_extract silent_models ''competitor page'' 25 = Some []"
    and "kw_extract silent_models demo_content 25 = Some []"
    by (simp_all add: silent_models_def demo_models_def demo_content_def)
  then have a: "fst (analyze silent_models ''cloud storage'' demo_content ''competitor page'') =
     Inr \<lparr>rel_score = 0.6, rel_band = relevance_band 0.6,
          gap = Some \<lparr>gap_missing = [], gap_shared = []\<rparr>\<rparr> \<and>
     fst (extract_keywords silent_models ''competitor page'' 25) = Inr []"
    using empty_keyphrases_give_empty_gap
      [of silent_models 25 "''competitor page''" "''cloud storage''" demo_content
          "''competitor page''" 13 51 "0.6" "[]"] demo_len
    by simp
  have b: "extract_keywords failing_models ''competitor page'' 25 =
     (Inl ProviderFailure, [Extract_keywords ''competitor page'' 25])"
    using empty_keyphrases_give_empty_gap
      [of failing_models 25 "''competitor page''" "[]" "[]" "[]" 0 0 0 "[]"]
    by (simp add: failing_models_def)
  have "encode picky_models ''cloud storage'' = Some 13"
    and "encode picky_models demo_content = Some 51"
    and "similarity picky_models 13 51 = Some 0.6"
    and "kw_extract picky_models ''competitor page'' 25 \<noteq> None"
    and "kw_extract picky_models demo_content 25 = None"
    using demo_differs
    by (simp_all add: picky_models_def demo_models_def demo_content_def)
  then have c: "analyze picky_models ''cloud storage'' demo_content ''competitor page'' =
     (Inl ProviderFailure,
      [Encode ''cloud storage'', Encode demo_content, Similarity 13 51,
       Extract_keywords ''competitor page'' 25, Extract_keywords demo_content 25])"
    using empty_keyphrases_give_empty_gap
      [of picky_models 25 "''competitor page''" "''cloud storage''" demo_content
          "''competitor page''" 13 51 "0.6" "[]"] demo_len
    by simp
  from a b c show ?thesis by blast
qed


section \<open>Fetching a page\<close>

lemma fetch_url_content_None:
  "fetch_url_content get_elements url = None \<longleftrightarrow> get_elements url = None"
  by (simp add: fetch_url_content_def split: option.splits)

text \<open>
  Claim C10. \<^verbatim>\<open>fetch_url_content\<close> returns \<open>None\<close> exactly when the request or the
  parser raises. When it returns \<open>None\<close> or the empty string, both fetch buttons leave
  the session state as it was; a non-empty text from a non-empty URL is stored in the
  button's own field; a changed session state implies a fetch that returned a non-empty
  text; and neither button touches the other's field.
\<close>

theorem fetch_failure_keeps_state:
  "(get_elements url = None \<longrightarrow> fetch_url_content get_elements url = None) \<and>
   (fetch_url_content get_elements url = None \<longrightarrow> get_elements url = None) \<and>
   (fetch_url_content get_elements url = None \<or> fetch_url_content get_elements url = Some [] \<longrightarrow>
      fetch_competitor get_elements url st = st \<and> fetch_my_page get_elements url st = st) \<and>
   (\<forall>t. url \<noteq> [] \<and> t \<noteq> [] \<and> fetch_url_content get_elements url = Some t \<longrightarrow>
      fetch_competitor get_elements url st = st\<lparr>competitor_text := t\<rparr> \<and>
      fetch_my_page get_elements url st = st\<lparr>my_text := t\<rparr>) \<and>
   (fetch_competitor get_elements url st \<noteq> st \<or> fetch_my_page get_elements url st \<noteq> st \<longrightarrow>
      (\<exists>t. t \<noteq> [] \<and> fetch_url_content get_elements url = Some t)) \<and>
   my_text (fetch_competitor get_elements url st) = my_text st \<and>
   competitor_text (fetch_my_page get_elements url st) = competitor_text st"
proof (cases "fetch_url_content get_elements url")
  case None
  then have "get_elements url = None"
    by (simp add: fetch_url_content_None)
  with None show ?thesis
    by (simp add: fetch_competitor_def fetch_my_page_def)
next
  case (Some t)
  then have "get_elements url \<noteq> None"
    using fetch_url_content_None [of get_elements url] by simp
  with Some show ?thesis
    by (auto simp: fetch_competitor_def fetch_my_page_def)
qed

lemma demo_web_blog:
  "fetch_url_content demo_web ''https://me.com/blog'' =
     Some ''A paragraph that is long enough to be kept.''"
  by code_simp

lemma demo_web_empty: "fetch_url_content demo_web ''https://me.com/empty'' = Some []"
  by code_simp

lemma demo_web_down: "demo_web ''https://them.com/blog'' = None"
  by code_simp

theorem fetch_failure_keeps_state_witness:
  "fetch_url_content demo_web ''https://them.com/blog'' = None \<and>
   fetch_competitor demo_web ''https://them.com/blog'' demo_state = demo_state \<and>
   fetch_my_page demo_web ''https://me.com/empty'' demo_state = demo_state \<and>
   fetch_my_page demo_web ''https://me.com/blog'' demo_state =
     demo_state\<lparr>my_text := ''A paragraph that is long enough to be kept.''\<rparr>"
  using fetch_failure_keeps_state [of demo_web "''https://them.com/blog''" demo_state]
    fetch_failure_keeps_state [of demo_web "''https://me.com/empty''" demo_state]
    fetch_failure_keeps_state [of demo_web "''https://me.com/blog''" demo_state]
    demo_web_blog demo_web_empty demo_web_down
  by simp

end
